theory Spec2Isabelle
  imports Complex_Main
begin

section \<open>Python floats\<close>

text \<open>
  Every amount of the program (balance, credit limit, debt, salary) is a Python
  \<^verbatim>\<open>float\<close>, an IEEE 754 binary64 number, and the columns that hold them are
  \<^verbatim>\<open>REAL\<close>, which SQLite stores in the same format. A finite float is modelled by
  the rational number it denotes, and each arithmetic operation is the exact operation
  followed by rounding to the nearest binary64 value, ties to even: 53 significant bits,
  least exponent \<open>-1074\<close> (gradual underflow). The sign of zero is not represented.
  Infinities, NaN and overflow are outside the model: a result at or beyond \<open>2 ^ 1024\<close>
  stays finite here. \<open>is_float\<close> below holds of the rationals that are finite binary64
  values; a statement that is true of the program only for such values has it as a
  hypothesis.
\<close>

type_synonym pyfloat = rat

function ilog2 :: "int \<Rightarrow> int" where
  "ilog2 n = (if n < 2 then 0 else 1 + ilog2 (n div 2))"
  by pat_completeness auto
termination
  by (relation "measure nat") auto

declare ilog2.simps [simp del]

text \<open>\<open>floor_log2 x\<close> is the integer \<open>k\<close> with \<open>2 ^ k \<le> x < 2 ^ (k + 1)\<close>, for \<open>x > 0\<close>.\<close>

definition floor_log2 :: "rat \<Rightarrow> int" where
  "floor_log2 x =
     (let (n, d) = quotient_of x;
          k = ilog2 n - ilog2 d
      in if 2 powi k \<le> x then k else k - 1)"

definition round_half_even :: "rat \<Rightarrow> int" where
  "round_half_even x =
     (let f = \<lfloor>x\<rfloor>; d = x - of_int f
      in if d < 1 / 2 then f
         else if 1 / 2 < d then f + 1
         else if even f then f else f + 1)"

text \<open>The exponent of the unit in the last place of the binary64 values next to \<open>x\<close>.\<close>

definition float_exponent :: "rat \<Rightarrow> int" where
  "float_exponent x = max (floor_log2 \<bar>x\<bar> - 52) (- 1074)"

text \<open>Rounding to binary64, and Python's \<^verbatim>\<open>float(...)\<close> of a decimal numeral.\<close>

definition fl :: "rat \<Rightarrow> pyfloat" where
  "fl x =
     (if x = 0 then 0
      else of_int (round_half_even (x / 2 powi float_exponent x)) * 2 powi float_exponent x)"

definition is_float :: "rat \<Rightarrow> bool" where
  "is_float x = (fl x = x \<and> \<bar>x\<bar> < 2 ^ 1024)"

definition float_add :: "pyfloat \<Rightarrow> pyfloat \<Rightarrow> pyfloat" where
  "float_add x y = fl (x + y)"

definition float_sub :: "pyfloat \<Rightarrow> pyfloat \<Rightarrow> pyfloat" where
  "float_sub x y = fl (x - y)"

section \<open>The database\<close>

text \<open>
  A table is the list of its rows, each with its \<^verbatim>\<open>INTEGER PRIMARY KEY AUTOINCREMENT\<close>
  id, in insertion order. Rows are never deleted, so the id given to a new row is one
  more than the greatest id of the table (and 1 in an empty table).
\<close>

type_synonym 'r table = "(int \<times> 'r) list"

definition next_rowid :: "'r table \<Rightarrow> int" where
  "next_rowid t = 1 + foldr max (map fst t) 0"

definition insert_row :: "'r \<Rightarrow> 'r table \<Rightarrow> 'r table" where
  "insert_row r t = t @ [(next_rowid t, r)]"

definition update_rows :: "('r \<Rightarrow> 'r) \<Rightarrow> int \<Rightarrow> 'r table \<Rightarrow> 'r table" where
  "update_rows f k t = map (\<lambda>(i, r). if i = k then (i, f r) else (i, r)) t"

definition fetch_record :: "'r table \<Rightarrow> int \<Rightarrow> 'r option" where
  "fetch_record t k = map_of t k"

text \<open>The columns of each table after the id, in the order of \<^verbatim>\<open>create_tables\<close>.\<close>

type_synonym customer_row = "string \<times> string \<times> string \<times> string"
type_synonym account_row = "int \<times> pyfloat \<times> string \<times> int"
type_synonym transaction_row = "int \<times> string \<times> pyfloat \<times> string"
type_synonym employee_row = "string \<times> string \<times> string \<times> pyfloat"
type_synonym loan_row = "int \<times> pyfloat \<times> pyfloat \<times> string"
type_synonym card_row = "int \<times> pyfloat \<times> pyfloat \<times> int"

text \<open>
  The tables are what the connection of the program sees. \<open>faults\<close> and
  \<open>commit_faults\<close> are the behaviour of the storage engine: the head of \<open>faults\<close>
  tells whether the next \<^verbatim>\<open>cursor.execute\<close> raises \<^verbatim>\<open>sqlite3.Error\<close> (a closed
  connection, a locked database), the head of \<open>commit_faults\<close> whether the next
  \<^verbatim>\<open>conn.commit\<close> does; an empty list means that no further call fails. \<open>clock\<close> is
  what \<^verbatim>\<open>datetime.datetime.now().isoformat()\<close> returns.
\<close>

record bank_db =
  customers :: "customer_row table"
  accounts :: "account_row table"
  transactions :: "transaction_row table"
  employees :: "employee_row table"
  loans :: "loan_row table"
  credit_cards :: "card_row table"
  faults :: "bool list"
  commit_faults :: "bool list"
  clock :: string

definition empty_db :: bank_db where
  "empty_db = \<lparr>customers = [], accounts = [], transactions = [], employees = [],
     loans = [], credit_cards = [], faults = [], commit_faults = [], clock = ''2024-01-01T00:00:00''\<rparr>"

text \<open>The statements the program executes, with their bound parameters.\<close>

datatype dml =
    Insert_customer string string string string
  | Insert_account "int option" pyfloat string
  | Insert_transaction "int option" string pyfloat string
  | Insert_employee string string string pyfloat
  | Insert_loan "int option" pyfloat pyfloat string
  | Insert_credit_card "int option" pyfloat pyfloat
  | Update_balance_add pyfloat "int option"
  | Update_balance_sub pyfloat "int option"
  | Update_loan_status string "int option"
  | Update_card_debt pyfloat "int option"

text \<open>
  What a statement does when the engine accepts it: \<open>None\<close> is a constraint violation
  (a \<^verbatim>\<open>NULL\<close> bound to a \<^verbatim>\<open>NOT NULL\<close> column), otherwise the value \<^verbatim>\<open>_execute_dml\<close>
  returns (\<^verbatim>\<open>lastrowid\<close> for an \<^verbatim>\<open>INSERT\<close>, 1 for an \<^verbatim>\<open>UPDATE\<close>) and the new tables.
  An \<^verbatim>\<open>UPDATE\<close> whose \<^verbatim>\<open>WHERE\<close> matches no row (also when the id is \<^verbatim>\<open>NULL\<close>) changes
  nothing and is no error. Foreign keys are not enforced (SQLite's default).
\<close>

fun run_statement :: "dml \<Rightarrow> bank_db \<Rightarrow> (int \<times> bank_db) option" where
  "run_statement (Insert_customer fname lname addr jdate) db =
     Some (next_rowid (customers db),
           db\<lparr>customers := insert_row (fname, lname, addr, jdate) (customers db)\<rparr>)"
| "run_statement (Insert_account cid b ty) db =
     (case cid of None \<Rightarrow> None
      | Some c \<Rightarrow> Some (next_rowid (accounts db),
                        db\<lparr>accounts := insert_row (c, b, ty, 1) (accounts db)\<rparr>))"
| "run_statement (Insert_transaction aid ty amt ts) db =
     (case aid of None \<Rightarrow> None
      | Some a \<Rightarrow> Some (next_rowid (transactions db),
                        db\<lparr>transactions := insert_row (a, ty, amt, ts) (transactions db)\<rparr>))"
| "run_statement (Insert_employee fname lname pos sal) db =
     Some (next_rowid (employees db),
           db\<lparr>employees := insert_row (fname, lname, pos, sal) (employees db)\<rparr>)"
| "run_statement (Insert_loan cid amt rate st) db =
     (case cid of None \<Rightarrow> None
      | Some c \<Rightarrow> Some (next_rowid (loans db),
                        db\<lparr>loans := insert_row (c, amt, rate, st) (loans db)\<rparr>))"
| "run_statement (Insert_credit_card cid cl debt) db =
     (case cid of None \<Rightarrow> None
      | Some c \<Rightarrow> Some (next_rowid (credit_cards db),
                        db\<lparr>credit_cards := insert_row (c, cl, debt, 1) (credit_cards db)\<rparr>))"
| "run_statement (Update_balance_add amt aid) db =
     (case aid of None \<Rightarrow> Some (1, db)
      | Some k \<Rightarrow> Some (1, db\<lparr>accounts :=
          update_rows (\<lambda>(c, b, ty, act). (c, float_add b amt, ty, act)) k (accounts db)\<rparr>))"
| "run_statement (Update_balance_sub amt aid) db =
     (case aid of None \<Rightarrow> Some (1, db)
      | Some k \<Rightarrow> Some (1, db\<lparr>accounts :=
          update_rows (\<lambda>(c, b, ty, act). (c, float_sub b amt, ty, act)) k (accounts db)\<rparr>))"
| "run_statement (Update_loan_status st lid) db =
     (case lid of None \<Rightarrow> Some (1, db)
      | Some k \<Rightarrow> Some (1, db\<lparr>loans :=
          update_rows (\<lambda>(c, amt, rate, _). (c, amt, rate, st)) k (loans db)\<rparr>))"
| "run_statement (Update_card_debt debt cid) db =
     (case cid of None \<Rightarrow> Some (1, db)
      | Some k \<Rightarrow> Some (1, db\<lparr>credit_cards :=
          update_rows (\<lambda>(c, cl, _, act). (c, cl, debt, act)) k (credit_cards db)\<rparr>))"

text \<open>
  \<^verbatim>\<open>BaseEntity._execute_dml\<close>: \<^verbatim>\<open>cursor.execute\<close>, then \<^verbatim>\<open>conn.commit\<close>, inside one
  \<^verbatim>\<open>try\<close>; any \<^verbatim>\<open>sqlite3.Error\<close> is logged and \<^verbatim>\<open>None\<close> is returned. When the
  execution raises (also on a constraint violation) the statement has changed no table.
  When the commit raises, the statement has run and there is no rollback: its change
  stays in the open transaction, the connection sees it, and the next commit that
  succeeds makes it durable.
\<close>

definition execute_fails :: "bank_db \<Rightarrow> bool" where
  "execute_fails db = (faults db \<noteq> [] \<and> hd (faults db))"

definition commit_fails :: "bank_db \<Rightarrow> bool" where
  "commit_fails db = (commit_faults db \<noteq> [] \<and> hd (commit_faults db))"

text \<open>The store refuses the next statement when its execution or its commit raises.\<close>

definition statement_fails :: "bank_db \<Rightarrow> bool" where
  "statement_fails db = (execute_fails db \<or> commit_fails db)"

definition execute_dml :: "dml \<Rightarrow> bank_db \<Rightarrow> int option \<times> bank_db" where
  "execute_dml stmt db =
     (let db0 = db\<lparr>faults := tl (faults db)\<rparr>
      in if execute_fails db then (None, db0)
         else (case run_statement stmt db0 of
                 None \<Rightarrow> (None, db0)
               | Some (r, db1) \<Rightarrow>
                   (let db2 = db1\<lparr>commit_faults := tl (commit_faults db1)\<rparr>
                    in if commit_fails db1 then (None, db2) else (Some r, db2))))"

text \<open>Python's truth value of an \<^verbatim>\<open>Optional[int]\<close>: \<^verbatim>\<open>None\<close> and 0 are false.\<close>

definition truthy :: "int option \<Rightarrow> bool" where
  "truthy r = (case r of None \<Rightarrow> False | Some n \<Rightarrow> n \<noteq> 0)"

section \<open>Entities\<close>

text \<open>
  The mutators return a Python \<^verbatim>\<open>bool\<close>; \<open>Success\<close> is \<^verbatim>\<open>True\<close>, and each other
  outcome is \<^verbatim>\<open>False\<close> together with what the call logged: the warning ``Amount must
  be positive'' (\<open>InvalidAmount\<close>), ``Insufficient funds'' (\<open>InsufficientFunds\<close>),
  ``Exceeds available credit'' (\<open>CreditLimitExceeded\<close>), ``could not be approved''
  with no failed statement before it (\<open>InvalidState\<close>), ``First and last names are
  required'' (\<open>ValidationError\<close>), the error ``Invalid input'' of a \<^verbatim>\<open>ValueError\<close>
  (\<open>InvalidInput\<close>), and the error ``SQL DML Failed'' of \<^verbatim>\<open>_execute_dml\<close>
  (\<open>StorageError\<close>).
\<close>

datatype outcome =
    Success
  | InvalidAmount
  | InsufficientFunds
  | CreditLimitExceeded
  | InvalidState
  | ValidationError
  | InvalidInput
  | StorageError

record customer =
  customer_id :: "int option"
  customer_first_name :: string
  customer_last_name :: string
  customer_address :: string
  customer_join_date :: string

record account =
  account_id :: "int option"
  account_customer_id :: "int option"
  balance :: pyfloat
  account_type :: string
  account_is_active :: int

record employee =
  employee_id :: "int option"
  employee_first_name :: string
  employee_last_name :: string
  employee_position :: string
  employee_salary :: pyfloat

record loan =
  loan_id :: "int option"
  loan_customer_id :: "int option"
  loan_amount :: pyfloat
  interest_rate :: pyfloat
  status :: string

record credit_card =
  card_id :: "int option"
  card_customer_id :: "int option"
  credit_limit :: pyfloat
  current_debt :: pyfloat
  card_is_active :: int

subsection \<open>Customer and Employee\<close>

definition customer_save_new :: "customer \<Rightarrow> bank_db \<Rightarrow> int option \<times> customer \<times> bank_db" where
  "customer_save_new c db =
     (case execute_dml (Insert_customer (customer_first_name c) (customer_last_name c)
                          (customer_address c) (customer_join_date c)) db of
        (new_id, db1) \<Rightarrow>
          if truthy new_id then (new_id, c\<lparr>customer_id := new_id\<rparr>, db1)
          else (new_id, c, db1))"

text \<open>
  \<^verbatim>\<open>BankSystem.create_customer\<close>; the arguments are the three lines read from the
  console after \<^verbatim>\<open>strip()\<close>, and \<open>today\<close> is \<^verbatim>\<open>datetime.date.today().isoformat()\<close>.
  The result holds the customer object when one was made.
\<close>

definition create_customer ::
  "string \<Rightarrow> string \<Rightarrow> string \<Rightarrow> string \<Rightarrow> bank_db \<Rightarrow> outcome \<times> customer option \<times> bank_db" where
  "create_customer first_name last_name address today db =
     (if first_name = [] \<or> last_name = [] then (ValidationError, None, db)
      else case customer_save_new \<lparr>customer_id = None, customer_first_name = first_name,
                  customer_last_name = last_name, customer_address = address,
                  customer_join_date = today\<rparr> db of
             (new_id, c, db1) \<Rightarrow>
               ((if truthy new_id then Success else StorageError), Some c, db1))"

definition employee_save_new :: "employee \<Rightarrow> bank_db \<Rightarrow> int option \<times> employee \<times> bank_db" where
  "employee_save_new e db =
     (case execute_dml (Insert_employee (employee_first_name e) (employee_last_name e)
                          (employee_position e) (employee_salary e)) db of
        (new_id, db1) \<Rightarrow>
          if truthy new_id then (new_id, e\<lparr>employee_id := new_id\<rparr>, db1)
          else (new_id, e, db1))"

text \<open>
  \<^verbatim>\<open>BankSystem.add_employee\<close>; \<open>salary_input\<close> is \<open>None\<close> when \<^verbatim>\<open>float(input(...))\<close>
  raises \<^verbatim>\<open>ValueError\<close>.
\<close>

definition add_employee ::
  "string \<Rightarrow> string \<Rightarrow> string \<Rightarrow> pyfloat option \<Rightarrow> bank_db \<Rightarrow> outcome \<times> employee option \<times> bank_db" where
  "add_employee first_name last_name pos salary_input db =
     (case salary_input of
        None \<Rightarrow> (InvalidInput, None, db)
      | Some sal \<Rightarrow>
          (case employee_save_new \<lparr>employee_id = None, employee_first_name = first_name,
                  employee_last_name = last_name, employee_position = pos,
                  employee_salary = sal\<rparr> db of
             (new_id, e, db1) \<Rightarrow>
               ((if truthy new_id then Success else StorageError), Some e, db1)))"

subsection \<open>Account\<close>

definition record_transaction :: "account \<Rightarrow> string \<Rightarrow> pyfloat \<Rightarrow> bank_db \<Rightarrow> bank_db" where
  "record_transaction a txn_type amount db =
     snd (execute_dml (Insert_transaction (account_id a) txn_type amount (clock db)) db)"

definition deposit :: "account \<Rightarrow> pyfloat \<Rightarrow> bank_db \<Rightarrow> outcome \<times> account \<times> bank_db" where
  "deposit a amount db =
     (if amount \<le> 0 then (InvalidAmount, a, db)
      else case execute_dml (Update_balance_add amount (account_id a)) db of
             (r, db1) \<Rightarrow>
               if truthy r then
                 (let a1 = a\<lparr>balance := float_add (balance a) amount\<rparr>
                  in (Success, a1, record_transaction a1 ''Deposit'' amount db1))
               else (StorageError, a, db1))"

definition withdraw :: "account \<Rightarrow> pyfloat \<Rightarrow> bank_db \<Rightarrow> outcome \<times> account \<times> bank_db" where
  "withdraw a amount db =
     (if amount \<le> 0 then (InvalidAmount, a, db)
      else if balance a < amount then (InsufficientFunds, a, db)
      else case execute_dml (Update_balance_sub amount (account_id a)) db of
             (r, db1) \<Rightarrow>
               if truthy r then
                 (let a1 = a\<lparr>balance := float_sub (balance a) amount\<rparr>
                  in (Success, a1, record_transaction a1 ''Withdrawal'' amount db1))
               else (StorageError, a, db1))"

definition account_save_new :: "account \<Rightarrow> bank_db \<Rightarrow> int option \<times> account \<times> bank_db" where
  "account_save_new a db =
     (case execute_dml (Insert_account (account_customer_id a) (balance a) (account_type a)) db of
        (new_id, db1) \<Rightarrow>
          if truthy new_id then (new_id, a\<lparr>account_id := new_id\<rparr>, db1)
          else (new_id, a, db1))"

definition account_load :: "bank_db \<Rightarrow> int \<Rightarrow> account option" where
  "account_load db k =
     (case fetch_record (accounts db) k of
        None \<Rightarrow> None
      | Some (c, b, ty, act) \<Rightarrow>
          Some \<lparr>account_id = Some k, account_customer_id = Some c, balance = b,
                account_type = ty, account_is_active = act\<rparr>)"

subsection \<open>Loan\<close>

text \<open>
  \<^verbatim>\<open>Loan.approve\<close> sets the status of the object before it writes, and falls through
  to its warning and \<^verbatim>\<open>return False\<close> when the write fails.
\<close>

definition approve :: "loan \<Rightarrow> bank_db \<Rightarrow> outcome \<times> loan \<times> bank_db" where
  "approve l db =
     (if status l = ''Pending'' \<and> truthy (loan_id l) then
        (let l1 = l\<lparr>status := ''Approved''\<rparr>
         in case execute_dml (Update_loan_status (status l1) (loan_id l1)) db of
              (r, db1) \<Rightarrow> if truthy r then (Success, l1, db1) else (StorageError, l1, db1))
      else (InvalidState, l, db))"

definition loan_save_new :: "loan \<Rightarrow> bank_db \<Rightarrow> int option \<times> loan \<times> bank_db" where
  "loan_save_new l db =
     (case execute_dml (Insert_loan (loan_customer_id l) (loan_amount l) (interest_rate l)
                          (status l)) db of
        (new_id, db1) \<Rightarrow>
          if truthy new_id then (new_id, l\<lparr>loan_id := new_id\<rparr>, db1)
          else (new_id, l, db1))"

subsection \<open>CreditCard\<close>

definition available_credit :: "credit_card \<Rightarrow> pyfloat" where
  "available_credit c = float_sub (credit_limit c) (current_debt c)"

text \<open>\<^verbatim>\<open>CreditCard.make_purchase\<close> adds to the debt of the object before it writes.\<close>

definition make_purchase :: "credit_card \<Rightarrow> pyfloat \<Rightarrow> bank_db \<Rightarrow> outcome \<times> credit_card \<times> bank_db" where
  "make_purchase c amount db =
     (if amount \<le> 0 then (InvalidAmount, c, db)
      else if available_credit c < amount then (CreditLimitExceeded, c, db)
      else (let c1 = c\<lparr>current_debt := float_add (current_debt c) amount\<rparr>
            in case execute_dml (Update_card_debt (current_debt c1) (card_id c1)) db of
                 (r, db1) \<Rightarrow> if truthy r then (Success, c1, db1) else (StorageError, c1, db1)))"

definition card_save_new :: "credit_card \<Rightarrow> bank_db \<Rightarrow> int option \<times> credit_card \<times> bank_db" where
  "card_save_new c db =
     (case execute_dml (Insert_credit_card (card_customer_id c) (credit_limit c)
                          (current_debt c)) db of
        (new_id, db1) \<Rightarrow>
          if truthy new_id then (new_id, c\<lparr>card_id := new_id\<rparr>, db1)
          else (new_id, c, db1))"

subsection \<open>Sequences of calls on one account object\<close>

datatype account_op = Deposit pyfloat | Withdraw pyfloat

fun apply_op :: "account_op \<Rightarrow> account \<Rightarrow> bank_db \<Rightarrow> outcome \<times> account \<times> bank_db" where
  "apply_op (Deposit amount) a db = deposit a amount db"
| "apply_op (Withdraw amount) a db = withdraw a amount db"

primrec op_amount :: "account_op \<Rightarrow> pyfloat" where
  "op_amount (Deposit amount) = amount"
| "op_amount (Withdraw amount) = amount"

text \<open>The calls are made one after the other; the result lists what each returned.\<close>

fun run_ops :: "account_op list \<Rightarrow> account \<Rightarrow> bank_db \<Rightarrow> outcome list \<times> account \<times> bank_db" where
  "run_ops [] a db = ([], a, db)"
| "run_ops (x # xs) a db =
     (case apply_op x a db of
        (r, a1, db1) \<Rightarrow>
          (case run_ops xs a1 db1 of (rs, a2, db2) \<Rightarrow> (r # rs, a2, db2)))"

section \<open>Concrete states\<close>

definition unsaved_loan :: loan where
  "unsaved_loan = \<lparr>loan_id = None, loan_customer_id = Some 1, loan_amount = 1000,
     interest_rate = 0, status = ''Pending''\<rparr>"

text \<open>The loan above after \<^verbatim>\<open>save_new\<close> on the empty database, and that database.\<close>

definition saved_loan :: loan where
  "saved_loan = fst (snd (loan_save_new unsaved_loan empty_db))"

definition loan_db :: bank_db where
  "loan_db = snd (snd (loan_save_new unsaved_loan empty_db))"

text \<open>An account opened with the initial deposit \<^verbatim>\<open>-5.0\<close>, which \<^verbatim>\<open>create_account\<close> accepts.\<close>

definition overdrawn_account :: account where
  "overdrawn_account = \<lparr>account_id = Some 1, account_customer_id = Some 1, balance = - 5,
     account_type = ''Checking'', account_is_active = 1\<rparr>"

text \<open>A card with limit \<^verbatim>\<open>500.00\<close> and no debt, before and after \<^verbatim>\<open>save_new\<close>.\<close>

definition new_card :: credit_card where
  "new_card = \<lparr>card_id = None, card_customer_id = Some 1, credit_limit = 500,
     current_debt = 0, card_is_active = 1\<rparr>"

definition issued_card :: credit_card where
  "issued_card = fst (snd (card_save_new new_card empty_db))"

definition card_db :: bank_db where
  "card_db = snd (snd (card_save_new new_card empty_db))"


text \<open>An account that holds \<^verbatim>\<open>100.0\<close>, and the database with its row.\<close>

definition new_account :: account where
  "new_account = \<lparr>account_id = None, account_customer_id = Some 1, balance = 100,
     account_type = ''Savings'', account_is_active = 1\<rparr>"

definition opened_account :: account where
  "opened_account = fst (snd (account_save_new new_account empty_db))"

definition account_db :: bank_db where
  "account_db = snd (snd (account_save_new new_account empty_db))"

text \<open>An account that holds \<^verbatim>\<open>0.1\<close>, with its row.\<close>

definition dime_account :: account where
  "dime_account = \<lparr>account_id = Some 1, account_customer_id = Some 1, balance = fl (1 / 10),
     account_type = ''Checking'', account_is_active = 1\<rparr>"

definition dime_db :: bank_db where
  "dime_db = empty_db\<lparr>accounts := [(1, (1, fl (1 / 10), ''Checking'', 1))]\<rparr>"

text \<open>A card with limit \<^verbatim>\<open>1.7\<close> and debt \<^verbatim>\<open>0.6\<close>, with its row.\<close>

definition tight_card :: credit_card where
  "tight_card = \<lparr>card_id = Some 1, card_customer_id = Some 1, credit_limit = fl (17 / 10),
     current_debt = fl (3 / 5), card_is_active = 1\<rparr>"

definition tight_db :: bank_db where
  "tight_db = empty_db\<lparr>credit_cards := [(1, (1, fl (17 / 10), fl (3 / 5), 1))]\<rparr>"

section \<open>Vocabulary of the specification\<close>


definition persisted_status :: "bank_db \<Rightarrow> loan \<Rightarrow> string option" where
  "persisted_status db l =
     (case loan_id l of None \<Rightarrow> None
      | Some k \<Rightarrow> map_option (\<lambda>(c, amt, rate, st). st) (fetch_record (loans db) k))"

section \<open>Storage and truth values\<close>

lemma execute_dml_fault:
  "faults db = True # fs \<Longrightarrow> execute_dml stmt db = (None, db\<lparr>faults := fs\<rparr>)"
  by (simp add: execute_dml_def statement_fails_def execute_fails_def commit_fails_def)

lemma run_statement_commit_faults:
  "run_statement stmt db = Some (r, db1) \<Longrightarrow> commit_faults db1 = commit_faults db"
  by (cases stmt) (auto split: option.splits)

lemma execute_dml_refused:
  "statement_fails db \<Longrightarrow> fst (execute_dml stmt db) = None"
  by (auto simp: execute_dml_def statement_fails_def execute_fails_def commit_fails_def Let_def
      dest: run_statement_commit_faults split: option.splits)

lemma execute_dml_add:
  "execute_dml (Update_balance_add x aid) db =
     (if execute_fails db then (None, db\<lparr>faults := tl (faults db)\<rparr>)
      else ((if commit_fails db then None else Some 1),
            db\<lparr>faults := tl (faults db), commit_faults := tl (commit_faults db),
               accounts := (case aid of None \<Rightarrow> accounts db
                 | Some k \<Rightarrow> update_rows (\<lambda>(c, b, ty, act). (c, float_add b x, ty, act)) k
                     (accounts db))\<rparr>))"
  by (cases aid) (simp_all add: execute_dml_def commit_fails_def)

lemma execute_dml_sub:
  "execute_dml (Update_balance_sub x aid) db =
     (if execute_fails db then (None, db\<lparr>faults := tl (faults db)\<rparr>)
      else ((if commit_fails db then None else Some 1),
            db\<lparr>faults := tl (faults db), commit_faults := tl (commit_faults db),
               accounts := (case aid of None \<Rightarrow> accounts db
                 | Some k \<Rightarrow> update_rows (\<lambda>(c, b, ty, act). (c, float_sub b x, ty, act)) k
                     (accounts db))\<rparr>))"
  by (cases aid) (simp_all add: execute_dml_def commit_fails_def)

lemma accounts_record_transaction [simp]:
  "accounts (record_transaction a ty x db) = accounts db"
  by (cases "account_id a")
     (simp_all add: record_transaction_def execute_dml_def Let_def)

lemma truthy_None [simp]: "\<not> truthy None"
  by (simp add: truthy_def)

lemma saved_loan_eq:
  "saved_loan = unsaved_loan\<lparr>loan_id := Some 1\<rparr>"
  by (simp add: saved_loan_def loan_save_new_def execute_dml_def statement_fails_def execute_fails_def commit_fails_def unsaved_loan_def empty_db_def
      next_rowid_def insert_row_def truthy_def)

lemma loan_db_eq:
  "loan_db = empty_db\<lparr>loans := [(1, (1, 1000, 0, ''Pending''))]\<rparr>"
  by (simp add: loan_db_def loan_save_new_def execute_dml_def statement_fails_def execute_fails_def commit_fails_def unsaved_loan_def empty_db_def
      next_rowid_def insert_row_def truthy_def)

lemma issued_card_eq: "issued_card = new_card\<lparr>card_id := Some 1\<rparr>"
  by (simp add: issued_card_def card_save_new_def execute_dml_def statement_fails_def execute_fails_def commit_fails_def
      new_card_def empty_db_def next_rowid_def insert_row_def truthy_def)

lemma card_db_eq: "card_db = empty_db\<lparr>credit_cards := [(1, (1, 500, 0, 1))]\<rparr>"
  by (simp add: card_db_def card_save_new_def execute_dml_def statement_fails_def execute_fails_def commit_fails_def
      new_card_def empty_db_def next_rowid_def insert_row_def truthy_def)

lemma opened_account_eq: "opened_account = new_account\<lparr>account_id := Some 1\<rparr>"
  by (simp add: opened_account_def account_save_new_def execute_dml_def statement_fails_def execute_fails_def commit_fails_def
      new_account_def empty_db_def next_rowid_def insert_row_def truthy_def)

lemma account_db_eq: "account_db = empty_db\<lparr>accounts := [(1, (1, 100, ''Savings'', 1))]\<rparr>"
  by (simp add: account_db_def account_save_new_def execute_dml_def statement_fails_def execute_fails_def commit_fails_def
      new_account_def empty_db_def next_rowid_def insert_row_def truthy_def)

lemma fetch_update_rows:
  "fetch_record (update_rows f k t) k = map_option f (fetch_record t k)"
  by (induction t) (auto simp: fetch_record_def update_rows_def)

subsection \<open>Floats of the scenarios\<close>

lemma fl_0: "fl 0 = 0"
  by (simp add: fl_def)

lemma fl_50: "fl 50 = 50"
  by code_simp

lemma fl_100: "fl 100 = 100"
  by code_simp

lemma fl_150: "fl 150 = 150"
  by code_simp

lemma fl_125: "fl 125 = 125"
  by code_simp

lemma fl_175: "fl 175 = 175"
  by code_simp

lemma fl_500: "fl 500 = 500"
  by code_simp

lemma fl_minus_100: "fl (- 100) = - 100"
  by code_simp


section \<open>Loan approval\<close>

text \<open>
  C10. \<^verbatim>\<open>approve\<close> on a loan whose id is unassigned returns failure and leaves the loan
  (so its status, also when it is Pending) and the database as they were; a call that
  succeeds had status Pending and an assigned, non-zero loan id.
\<close>

theorem approve_needs_pending_and_id:
  "(loan_id l = None \<longrightarrow> approve l db = (InvalidState, l, db)) \<and>
   (fst (approve l db) = Success \<longrightarrow>
      status l = ''Pending'' \<and> loan_id l \<noteq> None \<and> loan_id l \<noteq> Some 0)"
  by (auto simp: approve_def truthy_def Let_def split: prod.splits if_splits option.splits)

theorem approve_needs_pending_and_id_witness:
  "loan_id unsaved_loan = None \<and> status unsaved_loan = ''Pending'' \<and>
   approve unsaved_loan empty_db = (InvalidState, unsaved_loan, empty_db) \<and>
   fst (approve saved_loan loan_db) = Success \<and>
   status saved_loan = ''Pending'' \<and> loan_id saved_loan = Some 1"
  using approve_needs_pending_and_id [of unsaved_loan empty_db]
    approve_needs_pending_and_id [of saved_loan loan_db]
  by (simp add: saved_loan_eq loan_db_eq unsaved_loan_def approve_def execute_dml_def
      statement_fails_def execute_fails_def commit_fails_def empty_db_def truthy_def update_rows_def)






section \<open>Withdrawals that are refused\<close>

text \<open>
  C2, as the code has it. A withdrawal of a non-positive amount is refused as
  InvalidAmount; a withdrawal of a positive amount greater than the balance is refused as
  InsufficientFunds; both return the account object and the database (so the persisted
  row) unchanged. The amount is tested before the balance.
\<close>

theorem withdraw_refused_unchanged:
  "(amount \<le> 0 \<longrightarrow> withdraw a amount db = (InvalidAmount, a, db)) \<and>
   (0 < amount \<and> balance a < amount \<longrightarrow> withdraw a amount db = (InsufficientFunds, a, db))"
  by (simp add: withdraw_def)

theorem withdraw_refused_unchanged_witness:
  "(- 1 :: rat) \<le> 0 \<and> withdraw overdrawn_account (- 1) empty_db = (InvalidAmount, overdrawn_account, empty_db) \<and>
   (0 :: rat) < 7 \<and> balance overdrawn_account < 7 \<and>
   withdraw overdrawn_account 7 empty_db = (InsufficientFunds, overdrawn_account, empty_db)"
  using withdraw_refused_unchanged [of "- 1" overdrawn_account empty_db]
    withdraw_refused_unchanged [of 7 overdrawn_account empty_db]
  by (simp add: overdrawn_account_def)

text \<open>
  The claim as stated fails where both of its conditions hold: on a balance of \<open>-5\<close>
  the amount \<open>-1\<close> is greater than the balance, and the call is refused as InvalidAmount,
  not as InsufficientFunds.
\<close>

theorem withdraw_insufficient_counterexample:
  "balance overdrawn_account < - 1 \<and>
   fst (withdraw overdrawn_account (- 1) empty_db) \<noteq> InsufficientFunds"
  by (simp add: withdraw_def overdrawn_account_def)

section \<open>Writes that fail\<close>

text \<open>
  A commit that fails leaves its statement pending. The first deposit of 50 is refused
  at the commit, so the object keeps 100 while the connection sees 150 in the row; the
  second deposit, of 25, succeeds: the object has 125 and the row 175.
\<close>

lemma deposit_after_refused_commit:
  "deposit opened_account 50 (account_db\<lparr>commit_faults := [True]\<rparr>)
     = (StorageError, opened_account,
        account_db\<lparr>accounts := [(1, (1, 150, ''Savings'', 1))]\<rparr>) \<and>
   fst (snd (deposit opened_account 25
      (account_db\<lparr>accounts := [(1, (1, 150, ''Savings'', 1))]\<rparr>)))
     = opened_account\<lparr>balance := 125\<rparr> \<and>
   accounts (snd (snd (deposit opened_account 25
      (account_db\<lparr>accounts := [(1, (1, 150, ''Savings'', 1))]\<rparr>))))
     = [(1, (1, 175, ''Savings'', 1))]"
  by (simp add: deposit_def execute_dml_add execute_fails_def commit_fails_def truthy_def
      opened_account_eq account_db_eq new_account_def empty_db_def float_add_def
      fl_125 fl_150 fl_175 update_rows_def Let_def)

text \<open>
  C9. When the store refuses the \<^verbatim>\<open>UPDATE\<close> of \<^verbatim>\<open>deposit\<close> or \<^verbatim>\<open>withdraw\<close> (at its
  execution or at its commit), the call returns failure and the account object is
  unchanged. An account object that did change belongs to a call that returned success,
  whose \<^verbatim>\<open>UPDATE\<close> the store accepted, and the \<^verbatim>\<open>accounts\<close> table of the database
  returned is the table from before with that \<^verbatim>\<open>UPDATE\<close> applied to the row of the
  object's id. \<^verbatim>\<open>make_purchase\<close> and \<^verbatim>\<open>approve\<close> differ: once their guards pass, the
  object is changed whatever the store does.
\<close>

theorem account_snapshot_after_update:
  "(statement_fails db \<longrightarrow>
      fst (deposit a amount db) \<noteq> Success \<and> fst (snd (deposit a amount db)) = a \<and>
      fst (withdraw a amount db) \<noteq> Success \<and> fst (snd (withdraw a amount db)) = a) \<and>
   (fst (snd (deposit a amount db)) \<noteq> a \<longrightarrow>
      fst (deposit a amount db) = Success \<and> \<not> statement_fails db \<and>
      accounts (snd (snd (deposit a amount db)))
        = (case account_id a of None \<Rightarrow> accounts db
           | Some k \<Rightarrow> update_rows (\<lambda>(c, b, ty, act). (c, float_add b amount, ty, act)) k
               (accounts db))) \<and>
   (fst (snd (withdraw a amount db)) \<noteq> a \<longrightarrow>
      fst (withdraw a amount db) = Success \<and> \<not> statement_fails db \<and>
      accounts (snd (snd (withdraw a amount db)))
        = (case account_id a of None \<Rightarrow> accounts db
           | Some k \<Rightarrow> update_rows (\<lambda>(c, b, ty, act). (c, float_sub b amount, ty, act)) k
               (accounts db))) \<and>
   (0 < amount \<and> \<not> available_credit c < amount \<longrightarrow>
      fst (snd (make_purchase c amount db))
        = c\<lparr>current_debt := float_add (current_debt c) amount\<rparr>) \<and>
   (status l = ''Pending'' \<and> truthy (loan_id l) \<longrightarrow>
      fst (snd (approve l db)) = l\<lparr>status := ''Approved''\<rparr>)"
proof (intro conjI impI)
  assume f: "statement_fails db"
  have e: "fst (execute_dml stmt db) = None" for stmt
    using f by (rule execute_dml_refused)
  show "fst (deposit a amount db) \<noteq> Success"
    using e [of "Update_balance_add amount (account_id a)"]
    by (simp add: deposit_def split_beta)
  show "fst (snd (deposit a amount db)) = a"
    using e [of "Update_balance_add amount (account_id a)"]
    by (simp add: deposit_def split_beta)
  show "fst (withdraw a amount db) \<noteq> Success"
    using e [of "Update_balance_sub amount (account_id a)"]
    by (simp add: withdraw_def split_beta)
  show "fst (snd (withdraw a amount db)) = a"
    using e [of "Update_balance_sub amount (account_id a)"]
    by (simp add: withdraw_def split_beta)
next
  assume d: "fst (snd (deposit a amount db)) \<noteq> a"
  then have ok: "\<not> amount \<le> 0" "\<not> execute_fails db" "\<not> commit_fails db"
    by (auto simp: deposit_def execute_dml_add Let_def split: if_splits)
  from ok show "fst (deposit a amount db) = Success"
    by (simp add: deposit_def execute_dml_add truthy_def Let_def)
  from ok show "\<not> statement_fails db"
    by (simp add: statement_fails_def)
  from ok show "accounts (snd (snd (deposit a amount db)))
        = (case account_id a of None \<Rightarrow> accounts db
           | Some k \<Rightarrow> update_rows (\<lambda>(c, b, ty, act). (c, float_add b amount, ty, act)) k
               (accounts db))"
    by (simp add: deposit_def execute_dml_add truthy_def Let_def)
next
  assume d: "fst (snd (withdraw a amount db)) \<noteq> a"
  then have ok: "\<not> amount \<le> 0" "\<not> balance a < amount" "\<not> execute_fails db"
      "\<not> commit_fails db"
    by (auto simp: withdraw_def execute_dml_sub Let_def split: if_splits)
  from ok show "fst (withdraw a amount db) = Success"
    by (simp add: withdraw_def execute_dml_sub truthy_def Let_def)
  from ok show "\<not> statement_fails db"
    by (simp add: statement_fails_def)
  from ok show "accounts (snd (snd (withdraw a amount db)))
        = (case account_id a of None \<Rightarrow> accounts db
           | Some k \<Rightarrow> update_rows (\<lambda>(c, b, ty, act). (c, float_sub b amount, ty, act)) k
               (accounts db))"
    by (simp add: withdraw_def execute_dml_sub truthy_def Let_def)
next
  assume "0 < amount \<and> \<not> available_credit c < amount"
  then show "fst (snd (make_purchase c amount db))
      = c\<lparr>current_debt := float_add (current_debt c) amount\<rparr>"
    by (auto simp: make_purchase_def Let_def split: prod.splits)
next
  assume "status l = ''Pending'' \<and> truthy (loan_id l)"
  then show "fst (snd (approve l db)) = l\<lparr>status := ''Approved''\<rparr>"
    by (auto simp: approve_def Let_def split: prod.splits)
qed

theorem account_snapshot_after_update_witness:
  "statement_fails (account_db\<lparr>faults := [True]\<rparr>) \<and>
   deposit opened_account 50 (account_db\<lparr>faults := [True]\<rparr>)
     = (StorageError, opened_account, account_db) \<and>
   withdraw opened_account 50 (account_db\<lparr>faults := [True]\<rparr>)
     = (StorageError, opened_account, account_db) \<and>
   statement_fails (account_db\<lparr>commit_faults := [True]\<rparr>) \<and>
   fst (deposit opened_account 50 (account_db\<lparr>commit_faults := [True]\<rparr>)) = StorageError \<and>
   fst (snd (deposit opened_account 50 (account_db\<lparr>commit_faults := [True]\<rparr>)))
     = opened_account \<and>
   fst (snd (deposit opened_account 50 account_db)) \<noteq> opened_account \<and>
   fst (deposit opened_account 50 account_db) = Success \<and>
   accounts (snd (snd (deposit opened_account 50 account_db)))
     = [(1, (1, 150, ''Savings'', 1))] \<and>
   fst (snd (withdraw opened_account 50 account_db)) \<noteq> opened_account \<and>
   fst (withdraw opened_account 50 account_db) = Success \<and>
   accounts (snd (snd (withdraw opened_account 50 account_db)))
     = [(1, (1, 50, ''Savings'', 1))] \<and>
   (0 :: rat) < 100 \<and> \<not> available_credit issued_card < 100 \<and>
   fst (snd (make_purchase issued_card 100 (card_db\<lparr>faults := [True]\<rparr>)))
     = issued_card\<lparr>current_debt := 100\<rparr> \<and>
   status saved_loan = ''Pending'' \<and> truthy (loan_id saved_loan) \<and>
   fst (snd (approve saved_loan (loan_db\<lparr>faults := [True]\<rparr>)))
     = saved_loan\<lparr>status := ''Approved''\<rparr>"
  using account_snapshot_after_update [of "account_db\<lparr>faults := [True]\<rparr>" opened_account 50
      issued_card saved_loan]
    account_snapshot_after_update [of "account_db\<lparr>commit_faults := [True]\<rparr>" opened_account 50
      issued_card saved_loan]
    account_snapshot_after_update [of account_db opened_account 50 issued_card saved_loan]
    account_snapshot_after_update [of "card_db\<lparr>faults := [True]\<rparr>" opened_account 100
      issued_card saved_loan]
    account_snapshot_after_update [of "loan_db\<lparr>faults := [True]\<rparr>" opened_account 100
      issued_card saved_loan]
  by (simp add: deposit_def withdraw_def execute_dml_def statement_fails_def execute_fails_def
      commit_fails_def truthy_def opened_account_eq account_db_eq new_account_def empty_db_def
      float_add_def float_sub_def fl_50 fl_100 fl_150 fl_500 available_credit_def
      issued_card_eq card_db_eq new_card_def saved_loan_eq loan_db_eq unsaved_loan_def
      record_transaction_def update_rows_def)

text \<open>
  C3, evaluated where the code departs from it. The card has limit 500 and debt 0, the
  loan is saved and Pending, and the store refuses the next statement: both calls return
  failure, yet the card object now has debt 100 and the loan object has status Approved,
  while the tables still hold debt 0 and status Pending.
\<close>

theorem purchase_and_approve_mutate_before_write:
  "make_purchase issued_card 100 (card_db\<lparr>faults := [True]\<rparr>)
     = (StorageError, issued_card\<lparr>current_debt := 100\<rparr>, card_db) \<and>
   current_debt issued_card = 0 \<and>
   fetch_record (credit_cards card_db) 1 = Some (1, 500, 0, 1) \<and>
   approve saved_loan (loan_db\<lparr>faults := [True]\<rparr>)
     = (StorageError, saved_loan\<lparr>status := ''Approved''\<rparr>, loan_db) \<and>
   status saved_loan = ''Pending'' \<and>
   persisted_status loan_db saved_loan = Some ''Pending''"
  by (simp add: make_purchase_def approve_def available_credit_def float_sub_def float_add_def
      fl_500 fl_100 execute_dml_def statement_fails_def execute_fails_def commit_fails_def issued_card_eq card_db_eq new_card_def
      empty_db_def saved_loan_eq loan_db_eq unsaved_loan_def truthy_def fetch_record_def
      persisted_status_def)

section \<open>Names that are required\<close>

text \<open>
  C4, evaluated where the code departs from it. \<^verbatim>\<open>add_employee\<close> with an empty first
  name inserts the row and assigns id 1: neither it nor \<^verbatim>\<open>Employee.save_new\<close> looks at
  the names. \<^verbatim>\<open>Customer.save_new\<close> does not look at them either; for customers the test
  is made by the caller \<^verbatim>\<open>create_customer\<close>, which refuses an empty first or last name
  before anything is written.
\<close>

theorem employee_names_not_validated:
  "add_employee [] ''Smith'' ''Teller'' (Some 1000) empty_db
     = (Success,
        Some \<lparr>employee_id = Some 1, employee_first_name = [], employee_last_name = ''Smith'',
              employee_position = ''Teller'', employee_salary = 1000\<rparr>,
        empty_db\<lparr>employees := [(1, ([], ''Smith'', ''Teller'', 1000))]\<rparr>) \<and>
   customer_save_new \<lparr>customer_id = None, customer_first_name = [],
        customer_last_name = ''Smith'', customer_address = [],
        customer_join_date = ''2024-01-01''\<rparr> empty_db
     = (Some 1,
        \<lparr>customer_id = Some 1, customer_first_name = [], customer_last_name = ''Smith'',
         customer_address = [], customer_join_date = ''2024-01-01''\<rparr>,
        empty_db\<lparr>customers := [(1, ([], ''Smith'', [], ''2024-01-01''))]\<rparr>) \<and>
   create_customer [] ''Smith'' address today db = (ValidationError, None, db) \<and>
   create_customer ''Ada'' [] address today db = (ValidationError, None, db)"
  by (simp add: add_employee_def employee_save_new_def customer_save_new_def create_customer_def
      execute_dml_def statement_fails_def execute_fails_def commit_fails_def empty_db_def next_rowid_def insert_row_def truthy_def)

section \<open>The credit limit guard\<close>



section \<open>The balance never goes below zero\<close>

lemma round_half_even_nonneg: "0 \<le> x \<Longrightarrow> 0 \<le> round_half_even x"
  by (auto simp: round_half_even_def Let_def)

lemma fl_nonneg: "0 \<le> x \<Longrightarrow> 0 \<le> fl x"
  by (simp add: fl_def round_half_even_nonneg zero_le_divide_iff)

lemma deposit_nonneg:
  "0 \<le> balance a \<Longrightarrow> 0 \<le> balance (fst (snd (deposit a x db)))"
  by (auto simp: deposit_def float_add_def Let_def fl_nonneg split: prod.splits)

lemma withdraw_nonneg:
  "0 \<le> balance a \<Longrightarrow> 0 \<le> balance (fst (snd (withdraw a x db)))"
  by (auto simp: withdraw_def float_sub_def Let_def fl_nonneg split: prod.splits)

lemma account_load_Some:
  "account_load db k = Some a \<longleftrightarrow>
     (\<exists>c b ty act. fetch_record (accounts db) k = Some (c, b, ty, act) \<and>
        a = \<lparr>account_id = Some k, account_customer_id = Some c, balance = b,
              account_type = ty, account_is_active = act\<rparr>)"
  by (auto simp: account_load_def split: option.splits)

lemma deposit_sync:
  "account_load db k = Some a \<Longrightarrow> fst (deposit a x db) = Success \<Longrightarrow>
   account_load (snd (snd (deposit a x db))) k = Some (fst (snd (deposit a x db)))"
  by (auto simp: account_load_Some deposit_def execute_dml_add truthy_def fetch_update_rows
      Let_def split: if_splits)

lemma withdraw_sync:
  "account_load db k = Some a \<Longrightarrow> fst (withdraw a x db) = Success \<Longrightarrow>
   account_load (snd (snd (withdraw a x db))) k = Some (fst (snd (withdraw a x db)))"
  by (auto simp: account_load_Some withdraw_def execute_dml_sub truthy_def fetch_update_rows
      Let_def split: if_splits)

lemma apply_op_nonneg:
  "0 \<le> balance a \<Longrightarrow> 0 \<le> balance (fst (snd (apply_op x a db)))"
  by (cases x) (simp_all add: deposit_nonneg withdraw_nonneg)

lemma apply_op_sync:
  "account_load db k = Some a \<Longrightarrow> fst (apply_op x a db) = Success \<Longrightarrow>
   account_load (snd (snd (apply_op x a db))) k = Some (fst (snd (apply_op x a db)))"
  by (cases x) (simp_all add: deposit_sync withdraw_sync)

lemma run_ops_nonneg:
  "0 \<le> balance a \<Longrightarrow> 0 \<le> balance (fst (snd (run_ops xs a db)))"
proof (induction xs arbitrary: a db)
  case Nil
  then show ?case by simp
next
  case (Cons x xs)
  obtain r a1 db1 where s: "apply_op x a db = (r, a1, db1)" by (cases "apply_op x a db")
  have "0 \<le> balance a1" using apply_op_nonneg [OF Cons.prems, of x db] s by simp
  from Cons.IH [OF this, of db1] show ?case by (simp add: s split_beta)
qed

lemma run_ops_sync:
  "account_load db k = Some a \<Longrightarrow> \<forall>r \<in> set (fst (run_ops xs a db)). r = Success \<Longrightarrow>
   account_load (snd (snd (run_ops xs a db))) k = Some (fst (snd (run_ops xs a db)))"
proof (induction xs arbitrary: a db)
  case Nil
  then show ?case by simp
next
  case (Cons x xs)
  obtain r a1 db1 where s: "apply_op x a db = (r, a1, db1)" by (cases "apply_op x a db")
  have r: "r = Success" and rest: "\<forall>r \<in> set (fst (run_ops xs a1 db1)). r = Success"
    using Cons.prems(2) by (simp_all add: s split_beta)
  have "account_load db1 k = Some a1"
    using apply_op_sync [OF Cons.prems(1), of x] s r by simp
  from Cons.IH [OF this rest] show ?case by (simp add: s split_beta)
qed

text \<open>
  C1, as the code has it. The calls are made on one account object, with amounts that
  are finite floats. When the balance of the object is at least 0, after any sequence of
  \<^verbatim>\<open>deposit\<close> and \<^verbatim>\<open>withdraw\<close> calls that each returned success the balance of the object
  is at least 0; and when the object was the loaded image of its row before the calls,
  it is the image of the row after them, so the balance in the row is the same number.
\<close>

theorem balance_never_negative:
  assumes "0 \<le> balance a" and "\<forall>x \<in> set xs. is_float (op_amount x)"
    and "\<forall>r \<in> set (fst (run_ops xs a db)). r = Success"
  shows "0 \<le> balance (fst (snd (run_ops xs a db))) \<and>
     (\<forall>k. account_load db k = Some a \<longrightarrow>
        account_load (snd (snd (run_ops xs a db))) k = Some (fst (snd (run_ops xs a db))))"
  using assms(1) assms(3) by (simp add: run_ops_nonneg run_ops_sync)

theorem balance_never_negative_witness:
  "0 \<le> balance opened_account \<and>
   is_float (op_amount (Deposit 50)) \<and> is_float (op_amount (Withdraw 150)) \<and>
   fst (run_ops [Deposit 50, Withdraw 150] opened_account account_db) = [Success, Success] \<and>
   balance (fst (snd (run_ops [Deposit 50, Withdraw 150] opened_account account_db))) = 0 \<and>
   account_load account_db 1 = Some opened_account \<and>
   account_load (snd (snd (run_ops [Deposit 50, Withdraw 150] opened_account account_db))) 1
     = Some (opened_account\<lparr>balance := 0\<rparr>)"
  using balance_never_negative [of opened_account "[Deposit 50, Withdraw 150]" account_db]
  by (simp add: deposit_def withdraw_def execute_dml_def statement_fails_def execute_fails_def
      commit_fails_def truthy_def opened_account_eq account_db_eq new_account_def empty_db_def
      float_add_def float_sub_def fl_0 fl_50 fl_150 record_transaction_def account_load_def
      fetch_record_def update_rows_def next_rowid_def insert_row_def is_float_def)

text \<open>
  The claim as stated fails for the balance in the row when two objects hold the same
  row. Both are loaded from row 1, which holds 100. \<^verbatim>\<open>withdraw(100)\<close> on the first
  succeeds and the row holds 0; \<^verbatim>\<open>withdraw(100)\<close> on the second tests its own balance,
  still 100, succeeds, and the relative \<^verbatim>\<open>UPDATE\<close> leaves \<open>-100\<close> in the row.
\<close>

theorem shared_row_overdrawn_counterexample:
  "account_load account_db 1 = Some opened_account \<and> 0 \<le> balance opened_account \<and>
   fst (withdraw opened_account 100 account_db) = Success \<and>
   fst (withdraw opened_account 100 (snd (snd (withdraw opened_account 100 account_db))))
     = Success \<and>
   fetch_record (accounts (snd (snd (withdraw opened_account 100
       (snd (snd (withdraw opened_account 100 account_db))))))) 1
     = Some (1, - 100, ''Savings'', 1)"
  by (simp add: withdraw_def execute_dml_sub execute_fails_def commit_fails_def truthy_def
      opened_account_eq account_db_eq new_account_def empty_db_def float_sub_def
      fl_0 fl_minus_100 account_load_def fetch_record_def update_rows_def Let_def
      record_transaction_def execute_dml_def next_rowid_def insert_row_def)

section \<open>Deposit, then withdraw the same amount\<close>

lemma fl_tenth: "fl (1 / 10) = 3602879701896397 / 36028797018963968"
  by code_simp

lemma fl_fifth: "fl (1 / 5) = 3602879701896397 / 18014398509481984"
  by code_simp

lemma float_add_tenth_fifth:
  "float_add (3602879701896397 / 36028797018963968) (3602879701896397 / 18014398509481984)
     = 1351079888211149 / 4503599627370496"
  by code_simp

lemma float_sub_sum_fifth:
  "float_sub (1351079888211149 / 4503599627370496) (3602879701896397 / 18014398509481984)
     = 1801439850948199 / 18014398509481984"
  by code_simp

lemma deposit_Success:
  "fst (deposit a x db) = Success \<Longrightarrow>
     balance (fst (snd (deposit a x db))) = float_add (balance a) x"
  by (auto simp: deposit_def Let_def split: if_splits prod.splits)

lemma withdraw_Success:
  "fst (withdraw a x db) = Success \<Longrightarrow>
     balance (fst (snd (withdraw a x db))) = float_sub (balance a) x"
  by (auto simp: withdraw_def Let_def split: if_splits prod.splits)

text \<open>
  C5, as the code has it. After a successful \<^verbatim>\<open>deposit\<close> of \<open>x\<close> and a successful
  \<^verbatim>\<open>withdraw\<close> of \<open>x\<close> the balance is the float \<open>(b + x) - x\<close>, each operation rounded;
  it is the balance \<open>b\<close> from before the deposit whenever the sum \<open>b + x\<close> is itself a
  float, that is, whenever the deposit did not round.
\<close>

theorem deposit_withdraw_round_trip:
  assumes "fst (deposit a x db) = Success"
    and "fst (withdraw (fst (snd (deposit a x db))) x (snd (snd (deposit a x db)))) = Success"
  shows "balance (fst (snd (withdraw (fst (snd (deposit a x db))) x (snd (snd (deposit a x db))))))
           = float_sub (float_add (balance a) x) x \<and>
         (is_float (balance a) \<and> is_float (balance a + x) \<longrightarrow>
            balance (fst (snd (withdraw (fst (snd (deposit a x db))) x
               (snd (snd (deposit a x db)))))) = balance a)"
  using withdraw_Success [OF assms(2)] deposit_Success [OF assms(1)]
  by (simp add: float_sub_def float_add_def is_float_def)

theorem deposit_withdraw_round_trip_witness:
  "fst (deposit opened_account 50 account_db) = Success \<and>
   fst (withdraw (fst (snd (deposit opened_account 50 account_db))) 50
          (snd (snd (deposit opened_account 50 account_db)))) = Success \<and>
   is_float (balance opened_account) \<and> is_float (balance opened_account + 50) \<and>
   balance (fst (snd (withdraw (fst (snd (deposit opened_account 50 account_db))) 50
          (snd (snd (deposit opened_account 50 account_db)))))) = balance opened_account"
  using deposit_withdraw_round_trip [of opened_account 50 account_db]
  by (simp add: deposit_def withdraw_def execute_dml_def statement_fails_def execute_fails_def commit_fails_def truthy_def
      opened_account_eq account_db_eq new_account_def empty_db_def float_add_def float_sub_def
      fl_100 fl_150 record_transaction_def is_float_def)

text \<open>
  The claim as stated fails on the balance \<^verbatim>\<open>0.1\<close> with the amount \<^verbatim>\<open>0.2\<close>: both calls
  succeed, the amount is positive and not above the balance after the deposit
  (\<^verbatim>\<open>0.30000000000000004\<close>), and the balance after the withdrawal is
  \<^verbatim>\<open>0.10000000000000003\<close>.
\<close>

theorem deposit_withdraw_round_trip_counterexample:
  "fst (deposit dime_account (fl (1 / 5)) dime_db) = Success \<and>
   0 < fl (1 / 5) \<and>
   fl (1 / 5) \<le> balance (fst (snd (deposit dime_account (fl (1 / 5)) dime_db))) \<and>
   fst (withdraw (fst (snd (deposit dime_account (fl (1 / 5)) dime_db))) (fl (1 / 5))
          (snd (snd (deposit dime_account (fl (1 / 5)) dime_db)))) = Success \<and>
   balance (fst (snd (withdraw (fst (snd (deposit dime_account (fl (1 / 5)) dime_db)))
          (fl (1 / 5)) (snd (snd (deposit dime_account (fl (1 / 5)) dime_db))))))
     \<noteq> balance dime_account"
  by (simp add: deposit_def withdraw_def execute_dml_def statement_fails_def execute_fails_def commit_fails_def truthy_def
      dime_account_def dime_db_def empty_db_def fl_tenth fl_fifth float_add_tenth_fifth
      float_sub_sum_fifth record_transaction_def)

section \<open>Rounding is monotone\<close>

lemma ilog2_nonneg: "0 \<le> ilog2 n"
proof (induction n rule: ilog2.induct)
  case (1 n)
  then show ?case by (subst ilog2.simps) simp
qed

lemma ilog2_bounds:
  "1 \<le> n \<Longrightarrow> 2 ^ nat (ilog2 n) \<le> n \<and> n < 2 * 2 ^ nat (ilog2 n)"
proof (induction n rule: ilog2.induct)
  case (1 n)
  show ?case
  proof (cases "n < 2")
    case True
    then have "ilog2 n = 0" by (subst ilog2.simps) simp
    with True "1.prems" show ?thesis by simp
  next
    case False
    then have IH: "2 ^ nat (ilog2 (n div 2)) \<le> n div 2 \<and> n div 2 < 2 * 2 ^ nat (ilog2 (n div 2))"
      using "1.IH" by simp
    have e: "ilog2 n = 1 + ilog2 (n div 2)"
      using False by (subst ilog2.simps) simp
    have s: "nat (ilog2 n) = Suc (nat (ilog2 (n div 2)))"
      using ilog2_nonneg [of "n div 2"] e by simp
    from IH show ?thesis unfolding s by auto
  qed
qed

lemma powi_nat: "0 \<le> k \<Longrightarrow> (2::rat) powi k = of_int (2 ^ nat k)"
  by (simp add: power_int_def)

lemma floor_log2_bounds:
  assumes "0 < x"
  shows "2 powi floor_log2 x \<le> x \<and> x < 2 powi (floor_log2 x + 1)"
proof -
  obtain n d where q: "quotient_of x = (n, d)" by (cases "quotient_of x")
  have d: "0 < d" using q by (rule quotient_of_denom_pos)
  have x: "x = of_int n / of_int d" using q by (rule quotient_of_div)
  have n: "0 < n" using assms d x by (simp add: zero_less_divide_iff)
  define a where "a = ilog2 n"
  define b where "b = ilog2 d"
  define P :: rat where "P = 2 powi a"
  define Q :: rat where "Q = 2 powi b"
  have a0: "0 \<le> a" and b0: "0 \<le> b" by (simp_all add: a_def b_def ilog2_nonneg)
  have na: "2 ^ nat a \<le> n \<and> n < 2 * 2 ^ nat a"
    unfolding a_def using n by (intro ilog2_bounds) simp
  have db: "2 ^ nat b \<le> d \<and> d < 2 * 2 ^ nat b"
    unfolding b_def using d by (intro ilog2_bounds) simp
  have P: "P = of_int (2 ^ nat a)" unfolding P_def using a0 by (rule powi_nat)
  have Q: "Q = of_int (2 ^ nat b)" unfolding Q_def using b0 by (rule powi_nat)
  have n1: "P \<le> of_int n" unfolding P using na by (simp only: of_int_le_iff)
  have n2: "of_int n < 2 * P"
  proof -
    have "(of_int n :: rat) < of_int (2 * 2 ^ nat a)" using na by (simp only: of_int_less_iff)
    then show ?thesis unfolding P by simp
  qed
  have d1: "Q \<le> of_int d" unfolding Q using db by (simp only: of_int_le_iff)
  have d2: "of_int d < 2 * Q"
  proof -
    have "(of_int d :: rat) < of_int (2 * 2 ^ nat b)" using db by (simp only: of_int_less_iff)
    then show ?thesis unfolding Q by simp
  qed
  have Ppos: "0 < P" and Qpos: "0 < Q" by (simp_all add: P_def Q_def)
  have npos: "(0::rat) < of_int n" and dpos: "(0::rat) < of_int d" using n d by simp_all
  have up: "x < 2 powi (a - b + 1)"
  proof -
    have "of_int n / of_int d < (2 * P) / Q"
      using npos n2 Qpos d1 by (intro frac_less) simp_all
    also have "(2 * P) / Q = 2 powi (a - b + 1)"
      by (simp add: P_def Q_def power_int_add power_int_diff)
    finally show ?thesis by (simp add: x)
  qed
  have lo: "2 powi (a - b - 1) < x"
  proof -
    have "P / (2 * Q) < of_int n / of_int d"
      using Ppos n1 dpos d2 by (intro frac_less2) simp_all
    moreover have "P / (2 * Q) = 2 powi (a - b - 1)"
      by (simp add: P_def Q_def power_int_diff)
    ultimately show ?thesis by (simp add: x)
  qed
  show ?thesis
    using up lo unfolding floor_log2_def q a_def b_def
    by (auto simp: Let_def)
qed

lemma powi_less_imp_less: "(2::rat) powi m < 2 powi n \<Longrightarrow> m < n"
proof (rule ccontr)
  assume a: "(2::rat) powi m < 2 powi n" and "\<not> m < n"
  then have "n \<le> m" by simp
  then have "(2::rat) powi n \<le> 2 powi m" by (intro power_int_increasing) simp_all
  with a show False by simp
qed

lemma floor_log2_mono:
  assumes "0 < x" "x \<le> y"
  shows "floor_log2 x \<le> floor_log2 y"
proof -
  have y: "0 < y" using assms by simp
  have "2 powi floor_log2 x \<le> x" using floor_log2_bounds [OF assms(1)] by simp
  also have "x \<le> y" by fact
  also have "y < 2 powi (floor_log2 y + 1)" using floor_log2_bounds [OF y] by simp
  finally have "floor_log2 x < floor_log2 y + 1" by (rule powi_less_imp_less)
  then show ?thesis by simp
qed

lemma round_half_even_of_int [simp]: "round_half_even (of_int n) = n"
  by (simp add: round_half_even_def)

lemma round_half_even_bounds:
  "\<lfloor>x\<rfloor> \<le> round_half_even x \<and> round_half_even x \<le> \<lfloor>x\<rfloor> + 1"
  by (simp add: round_half_even_def Let_def)

lemma round_half_even_mono:
  assumes "x \<le> y"
  shows "round_half_even x \<le> round_half_even y"
proof (cases "\<lfloor>x\<rfloor> = \<lfloor>y\<rfloor>")
  case True
  with assms show ?thesis by (auto simp: round_half_even_def Let_def)
next
  case False
  then have "\<lfloor>x\<rfloor> + 1 \<le> \<lfloor>y\<rfloor>" using floor_mono [OF assms] by simp
  then show ?thesis
    using round_half_even_bounds [of x] round_half_even_bounds [of y] by linarith
qed

lemma fl_pos_eq:
  "0 < x \<Longrightarrow> fl x = of_int (round_half_even (x / 2 powi float_exponent x)) * 2 powi float_exponent x"
  by (simp add: fl_def)

lemma fl_mono_pos:
  assumes "0 < x" "x \<le> y"
  shows "fl x \<le> fl y"
proof -
  define ex where "ex = float_exponent x"
  define ey where "ey = float_exponent y"
  have y: "0 < y" using assms by simp
  have ex: "ex = max (floor_log2 x - 52) (- 1074)"
    using assms(1) by (simp add: ex_def float_exponent_def)
  have ey: "ey = max (floor_log2 y - 52) (- 1074)"
    using y by (simp add: ey_def float_exponent_def)
  have L: "floor_log2 x \<le> floor_log2 y" using assms by (rule floor_log2_mono)
  have exy: "ex \<le> ey" using L unfolding ex ey by simp
  have flx: "fl x = of_int (round_half_even (x / 2 powi ex)) * 2 powi ex"
    unfolding ex_def using assms(1) by (rule fl_pos_eq)
  have fly: "fl y = of_int (round_half_even (y / 2 powi ey)) * 2 powi ey"
    unfolding ey_def using y by (rule fl_pos_eq)
  show ?thesis
  proof (cases "ex = ey")
    case True
    have "x / 2 powi ey \<le> y / 2 powi ey"
      using assms(2) by (intro divide_right_mono) simp_all
    then have "round_half_even (x / 2 powi ey) \<le> round_half_even (y / 2 powi ey)"
      by (rule round_half_even_mono)
    then have "(of_int (round_half_even (x / 2 powi ey)) :: rat) \<le> of_int (round_half_even (y / 2 powi ey))"
      by (simp only: of_int_le_iff)
    then show ?thesis unfolding flx fly True
      by (intro mult_right_mono) simp_all
  next
    case False
    with exy have lt: "ex < ey" by simp
    have eyL: "ey = floor_log2 y - 52" using lt unfolding ex ey by (simp add: max_def split: if_splits)
    have Lx: "floor_log2 x + 1 \<le> floor_log2 y" using lt unfolding ex ey by (simp add: max_def split: if_splits)
    define B :: rat where "B = 2 powi (ey + 52)"
    have By: "B \<le> y" using floor_log2_bounds [OF y] by (simp add: B_def eyL)
    have xB: "x \<le> B"
    proof -
      have "x < 2 powi (floor_log2 x + 1)" using floor_log2_bounds [OF assms(1)] by simp
      also have "\<dots> \<le> 2 powi floor_log2 y" using Lx by (intro power_int_increasing) simp_all
      finally show ?thesis by (simp add: B_def eyL)
    qed
    have Bx: "B / 2 powi ex = of_int (2 ^ nat (ey + 52 - ex))"
    proof -
      have "B / 2 powi ex = 2 powi (ey + 52 - ex)" by (simp add: B_def power_int_diff)
      also have "\<dots> = of_int (2 ^ nat (ey + 52 - ex))" using lt by (intro powi_nat) simp
      finally show ?thesis .
    qed
    have Bey: "B / 2 powi ey = of_int (2 ^ 52)"
    proof -
      have "B / 2 powi ey = 2 powi (ey + 52 - ey)" unfolding B_def by (rule power_int_diff [symmetric]) simp
      then show ?thesis by simp
    qed
    have "fl x \<le> B"
    proof -
      have "x / 2 powi ex \<le> B / 2 powi ex" using xB by (intro divide_right_mono) simp_all
      then have "round_half_even (x / 2 powi ex) \<le> round_half_even (B / 2 powi ex)"
        by (rule round_half_even_mono)
      then have "round_half_even (x / 2 powi ex) \<le> 2 ^ nat (ey + 52 - ex)"
        unfolding Bx by (simp only: round_half_even_of_int)
      then have "(of_int (round_half_even (x / 2 powi ex)) :: rat) \<le> of_int (2 ^ nat (ey + 52 - ex))"
        by (simp only: of_int_le_iff)
      then have "fl x \<le> of_int (2 ^ nat (ey + 52 - ex)) * 2 powi ex"
        unfolding flx by (intro mult_right_mono) simp_all
      also have "\<dots> = B" unfolding Bx [symmetric] by simp
      finally show ?thesis .
    qed
    moreover have "B \<le> fl y"
    proof -
      have "B / 2 powi ey \<le> y / 2 powi ey" using By by (intro divide_right_mono) simp_all
      then have "round_half_even (B / 2 powi ey) \<le> round_half_even (y / 2 powi ey)"
        by (rule round_half_even_mono)
      then have "2 ^ 52 \<le> round_half_even (y / 2 powi ey)"
        unfolding Bey by (simp only: round_half_even_of_int)
      then have "(of_int (2 ^ 52) :: rat) \<le> of_int (round_half_even (y / 2 powi ey))"
        by (simp only: of_int_le_iff)
      then have "of_int (2 ^ 52) * 2 powi ey \<le> fl y"
        unfolding fly by (intro mult_right_mono) simp_all
      moreover have "of_int (2 ^ 52) * 2 powi ey = B" unfolding Bey [symmetric] by simp
      ultimately show ?thesis by simp
    qed
    ultimately show ?thesis by simp
  qed
qed

section \<open>The debt and the credit limit\<close>

lemma fl_1_7: "fl (17 / 10) = 7656119366529843 / 4503599627370496"
  by code_simp

lemma fl_0_6: "fl (3 / 5) = 5404319552844595 / 9007199254740992"
  by code_simp

lemma fl_1_1: "fl (11 / 10) = 2476979795053773 / 2251799813685248"
  by code_simp

lemma float_sub_1_7_0_6:
  "float_sub (7656119366529843 / 4503599627370496) (5404319552844595 / 9007199254740992)
     = 2476979795053773 / 2251799813685248"
  by code_simp

lemma float_add_0_6_1_1:
  "float_add (5404319552844595 / 9007199254740992) (2476979795053773 / 2251799813685248)
     = 1914029841632461 / 1125899906842624"
  by code_simp

text \<open>
  C6, as the code has it. On a card with \<open>0 \<le> debt \<le> limit\<close> whose available credit
  \<open>limit - debt\<close> is computed without rounding, \<^verbatim>\<open>make_purchase\<close> never leaves the
  object with a debt above the limit, for any amount and whether the call succeeds or
  fails.
\<close>

theorem purchase_within_limit:
  assumes "0 \<le> current_debt c" and "current_debt c \<le> credit_limit c"
    and "is_float (credit_limit c)" and "is_float (credit_limit c - current_debt c)"
  shows "current_debt (fst (snd (make_purchase c amount db)))
           \<le> credit_limit (fst (snd (make_purchase c amount db)))"
proof (cases "amount \<le> 0 \<or> available_credit c < amount")
  case True
  then have "fst (snd (make_purchase c amount db)) = c"
    by (auto simp: make_purchase_def)
  with assms(2) show ?thesis by simp
next
  case False
  then have pos: "0 < amount" and le: "amount \<le> available_credit c" by auto
  have av: "available_credit c = credit_limit c - current_debt c"
    using assms(4) by (simp add: available_credit_def float_sub_def is_float_def)
  have obj: "fst (snd (make_purchase c amount db))
      = c\<lparr>current_debt := float_add (current_debt c) amount\<rparr>"
    using False by (auto simp: make_purchase_def Let_def split: prod.splits)
  have "0 < current_debt c + amount" using assms(1) pos by simp
  moreover have "current_debt c + amount \<le> credit_limit c" using le av by simp
  ultimately have "fl (current_debt c + amount) \<le> fl (credit_limit c)" by (rule fl_mono_pos)
  also have "fl (credit_limit c) = credit_limit c" using assms(3) by (simp add: is_float_def)
  finally show ?thesis by (simp add: obj float_add_def)
qed

theorem purchase_within_limit_witness:
  "0 \<le> current_debt issued_card \<and> current_debt issued_card \<le> credit_limit issued_card \<and>
   is_float (credit_limit issued_card) \<and>
   is_float (credit_limit issued_card - current_debt issued_card) \<and>
   fst (make_purchase issued_card 500 card_db) = Success \<and>
   current_debt (fst (snd (make_purchase issued_card 500 card_db))) = 500 \<and>
   credit_limit (fst (snd (make_purchase issued_card 500 card_db))) = 500"
  using purchase_within_limit [of issued_card 500 card_db]
  by (simp add: make_purchase_def available_credit_def float_sub_def float_add_def
      fl_500 fl_0 execute_dml_def statement_fails_def execute_fails_def commit_fails_def issued_card_eq card_db_eq
      new_card_def empty_db_def truthy_def is_float_def)

text \<open>
  The claim as stated fails on the card with limit \<^verbatim>\<open>1.7\<close> and debt \<^verbatim>\<open>0.6\<close>: the
  available credit \<^verbatim>\<open>1.7 - 0.6\<close> rounds to \<^verbatim>\<open>1.1\<close>, the purchase of \<^verbatim>\<open>1.1\<close> passes the
  guard and succeeds, and the new debt \<^verbatim>\<open>0.6 + 1.1\<close> is \<^verbatim>\<open>1.7000000000000002\<close>.
\<close>

theorem purchase_within_limit_counterexample:
  "0 \<le> current_debt tight_card \<and> current_debt tight_card \<le> credit_limit tight_card \<and>
   fst (make_purchase tight_card (fl (11 / 10)) tight_db) = Success \<and>
   credit_limit (fst (snd (make_purchase tight_card (fl (11 / 10)) tight_db)))
     < current_debt (fst (snd (make_purchase tight_card (fl (11 / 10)) tight_db)))"
  by (simp add: make_purchase_def available_credit_def tight_card_def tight_db_def empty_db_def
      fl_1_7 fl_0_6 fl_1_1 float_sub_1_7_0_6 float_add_0_6_1_1 execute_dml_def
      statement_fails_def execute_fails_def commit_fails_def truthy_def)

end
